theory Spec2Isabelle
  imports Complex_Main
begin

section \<open>Canonical imaging pipeline: the make steps of \<^verbatim>\<open>djimaging/processing.py\<close>\<close>

text \<open>
  The module declares the tables downstream of a processing task and, for the computed
  and imported ones, a \<^verbatim>\<open>make(self, key)\<close> step that reads the output directory of the
  external analysis tool through a loader and inserts rows. The embedding keeps the
  record store as an explicit state (one list of rows per table, in insertion order),
  every Python exception as a value of type \<open>error\<close>, and everything that lives outside
  the module (file system, loader, deployment hooks) as a field of an environment.
\<close>

subsection \<open>Exceptions\<close>

datatype error =
    NotImplementedError string
  | TypeError
  | KeyError
  | AttributeError
  | ValueError
  | DataJointError
  | DuplicateError
  | LoaderError

subsection \<open>Keys and rows of the tables\<close>

type_synonym path = "string list"
type_synonym datetime = int
type_synonym array = "real list"
type_synonym image = "real list list"

text \<open>Primary key of \<^verbatim>\<open>ProcessingTask\<close>: \<^verbatim>\<open>-> Scan\<close> and \<^verbatim>\<open>processing_instance\<close>.
  \<^verbatim>\<open>Processing\<close>, \<^verbatim>\<open>MotionCorrection\<close>, \<^verbatim>\<open>Segmentation\<close> and \<^verbatim>\<open>Fluorescence\<close> inherit
  exactly this key.\<close>

record task_key =
  scan :: string
  processing_instance :: nat

record ProcessingTask_row =
  task :: task_key
  processing_method :: string
  paramset_idx :: int

text \<open>\<^verbatim>\<open>ScanInfo.Field\<close> is declared in \<^verbatim>\<open>imaging.py\<close>; the make steps use its scan, its
  own discriminator and the attribute \<^verbatim>\<open>plane\<close> they restrict on.\<close>

record Field_row =
  field_scan :: string
  field_idx :: int
  plane :: int

text \<open>The \<^verbatim>\<open>'KEY'\<close> of \<^verbatim>\<open>ScanInfo.Field * ProcessingTask\<close>.\<close>

record field_key =
  fk_task :: task_key
  fk_field_idx :: int

record Processing_row =
  p_key :: task_key
  start_time :: "datetime option"
  completion_time :: datetime
  p_curation_time :: "datetime option"

record MotionCorrection_row =
  mc_key :: task_key
  mc_channel :: int

record RigidMotionCorrection_row =
  rigid_key :: field_key
  rigid_outlier_frames :: "bool list"
  rigid_y_shifts :: array
  rigid_x_shifts :: array
  rigid_y_std :: real
  rigid_x_std :: real
  rigid_z_drift :: "array option"

record NonRigidMotionCorrection_row =
  nonrigid_key :: field_key
  nonrigid_outlier_frames :: "bool list"
  block_height :: int
  block_width :: int
  block_count_y :: int
  block_count_x :: int
  nonrigid_z_drift :: "array option"

record Block_row =
  block_key :: field_key
  block_id :: int
  block_y :: array
  block_x :: array
  block_y_shifts :: array
  block_x_shifts :: array
  block_y_std :: real
  block_x_std :: real

record MotionCorrectedImages_row =
  img_key :: field_key
  img_ref_image :: image
  img_average_image :: image
  img_correlation_image :: "image option"
  img_max_proj_image :: "image option"

record Segmentation_row =
  seg_key :: task_key
  seg_channel :: int

record Mask_row =
  mask_key :: task_key
  mask_id :: int
  mask_field_idx :: int
  mask_npix :: int
  center_x :: int
  center_y :: int
  mask_xpix :: "int list"
  mask_ypix :: "int list"
  weights :: array

record Cell_row =
  cell_key :: task_key
  cell_mask :: int
  is_cell :: bool
  cell_cell_prob :: real

record Trace_row =
  trace_key :: task_key
  trace_mask :: int
  fluo_channel :: int
  fluo :: array
  neuropil_fluo :: array

subsection \<open>The record store\<close>

record store =
  ProcessingTask :: "ProcessingTask_row list"
  ScanInfo :: "string list"
  ScanInfo_Field :: "Field_row list"
  Processing :: "Processing_row list"
  PhysicalFile :: "path list"
  ProcessingOutputFile :: "(task_key \<times> path) list"
  MotionCorrection :: "MotionCorrection_row list"
  RigidMotionCorrection :: "RigidMotionCorrection_row list"
  NonRigidMotionCorrection :: "NonRigidMotionCorrection_row list"
  Block :: "Block_row list"
  MotionCorrectedImages :: "MotionCorrectedImages_row list"
  Segmentation :: "Segmentation_row list"
  Mask :: "Mask_row list"
  Cell :: "Cell_row list"
  Fluorescence :: "task_key list"
  Trace :: "Trace_row list"

text \<open>Modelled from the spec: the insert operations of the record store (the datajoint
  library is not under src/). Section 4.5 asks that an insert reject a row whose key is
  already present (\<open>DuplicateKey\<close>); \<^verbatim>\<open>skip_duplicates=True\<close> drops such rows instead. No
  other check is made by the store. \<open>pk\<close> projects a row to its primary key.\<close>

definition insert1 :: "('r \<Rightarrow> 'k) \<Rightarrow> 'r list \<Rightarrow> 'r \<Rightarrow> error + 'r list" where
  "insert1 pk tbl r = (if pk r \<in> pk ` set tbl then Inl DuplicateError else Inr (tbl @ [r]))"

fun insert_rows :: "('r \<Rightarrow> 'k) \<Rightarrow> 'r list \<Rightarrow> 'r list \<Rightarrow> error + 'r list" where
  "insert_rows pk tbl [] = Inr tbl"
| "insert_rows pk tbl (r # rs) =
     (case insert1 pk tbl r of Inl e \<Rightarrow> Inl e | Inr tbl' \<Rightarrow> insert_rows pk tbl' rs)"

fun insert_skip_duplicates :: "('r \<Rightarrow> 'k) \<Rightarrow> 'r list \<Rightarrow> 'r list \<Rightarrow> 'r list" where
  "insert_skip_duplicates pk tbl [] = tbl"
| "insert_skip_duplicates pk tbl (r # rs) =
     insert_skip_duplicates pk (if pk r \<in> pk ` set tbl then tbl else tbl @ [r]) rs"

text \<open>\<^verbatim>\<open>fetch1\<close> raises unless the query has exactly one row.\<close>

definition fetch1 :: "'a list \<Rightarrow> error + 'a" where
  "fetch1 rows = (case rows of [r] \<Rightarrow> Inr r | _ \<Rightarrow> Inl DataJointError)"

text \<open>\<^verbatim>\<open>ProcessingMethod\<close> is a lookup table with fixed contents.\<close>

definition ProcessingMethod_contents :: "string list" where
  "ProcessingMethod_contents = [''suite2p'', ''caiman'']"

text \<open>\<^verbatim>\<open>(ProcessingMethod * ProcessingTask & key).fetch1('processing_method')\<close>\<close>

definition fetch1_processing_method :: "store \<Rightarrow> task_key \<Rightarrow> error + string" where
  "fetch1_processing_method st key =
     fetch1 [processing_method t. m \<leftarrow> ProcessingMethod_contents, t \<leftarrow> ProcessingTask st,
               processing_method t = m, task t = key]"

text \<open>\<^verbatim>\<open>(ScanInfo.Field * ProcessingTask & key & {'plane': plane}).fetch1('KEY')\<close>\<close>

definition fetch1_field_KEY :: "store \<Rightarrow> task_key \<Rightarrow> int \<Rightarrow> error + field_key" where
  "fetch1_field_KEY st key pl =
     fetch1 [\<lparr>fk_task = task t, fk_field_idx = field_idx f\<rparr>.
               f \<leftarrow> ScanInfo_Field st, t \<leftarrow> ProcessingTask st,
               field_scan f = scan (task t), task t = key, plane f = pl]"

subsection \<open>The loader\<close>

text \<open>A two-dimensional numpy array: its shape and its items. Iterating it yields its
  rows; \<^verbatim>\<open>.T\<close> swaps the axes.\<close>

record ndarray2 =
  shape0 :: nat
  shape1 :: nat
  item :: "nat \<Rightarrow> nat \<Rightarrow> real"

definition ndarray_T :: "ndarray2 \<Rightarrow> ndarray2" where
  "ndarray_T a = \<lparr>shape0 = shape1 a, shape1 = shape0 a, item = (\<lambda>i j. item a j i)\<rparr>"

definition ndarray_rows :: "ndarray2 \<Rightarrow> array list" where
  "ndarray_rows a = map (\<lambda>i. map (item a i) [0..<shape1 a]) [0..<shape0 a]"

text \<open>The entries of the \<^verbatim>\<open>ops\<close> dictionary the make steps read.\<close>

record ops_dict =
  yoff :: array
  xoff :: array
  badframes :: "bool list"
  nonrigid :: bool
  block_size :: "int \<times> int"
  nblocks :: "int \<times> int"
  xblock :: "array list"
  yblock :: "array list"
  yoff1 :: ndarray2
  xoff1 :: ndarray2

text \<open>One entry of \<^verbatim>\<open>stat\<close>; \<^verbatim>\<open>med\<close> is the pair \<^verbatim>\<open>(med[0], med[1])\<close>.\<close>

record mask_stat =
  npix :: int
  med :: "int \<times> int"
  xpix :: "int list"
  ypix :: "int list"
  lam :: array

text \<open>Modelled from the spec: the loader handle and its per-plane results (the module
  \<^verbatim>\<open>img_loaders/suite2p.py\<close> is not under src/). Section 4.2 gives a handle the plane
  results, a creation time and a curation time; a plane result carries the attributes
  the make steps read. \<open>planes\<close> is a dictionary from plane number to plane result,
  kept as an association list in iteration order.\<close>

record PlaneSuite2p =
  alignment_channel :: int
  segmentation_channel :: int
  ops :: ops_dict
  iscell :: "bool list"
  cell_prob :: "real list"
  stat :: "mask_stat list"
  F :: "array list"
  Fneu :: "array list"
  F_chan2 :: "array list"
  Fneu_chan2 :: "array list"
  ref_image :: image
  mean_image :: image
  correlation_map :: "image option"
  max_proj_image :: "image option"

record Suite2p =
  planes :: "(int \<times> PlaneSuite2p) list"
  creation_time :: datetime
  curation_time :: "datetime option"

text \<open>\<^verbatim>\<open>s2p_loader.planes[0]\<close>: a dictionary lookup, \<^verbatim>\<open>KeyError\<close> when plane 0 is absent.\<close>

definition planes_getitem :: "Suite2p \<Rightarrow> int \<Rightarrow> error + PlaneSuite2p" where
  "planes_getitem s2p_loader k =
     (case map_of (planes s2p_loader) k of None \<Rightarrow> Inl KeyError | Some p \<Rightarrow> Inr p)"

subsection \<open>The environment of a make step\<close>

text \<open>
  \<^item> \<open>get_suite2p_dir\<close> is the deployment hook \<^verbatim>\<open>Processing._get_suite2p_dir\<close>; the stub
    in the module returns \<^verbatim>\<open>None\<close>, on which \<^verbatim>\<open>pathlib.Path\<close> raises \<^verbatim>\<open>TypeError\<close>;
  \<^item> \<open>get_root_data_dir\<close> is \<^verbatim>\<open>PhysicalFile._get_root_data_dir\<close>, a hook of the same kind;
  \<^item> \<open>dir_exists\<close>, \<open>glob_star\<close> and \<open>is_file\<close> are the file system;
  \<^item> \<open>Suite2p_open\<close> is the constructor \<^verbatim>\<open>suite2p.Suite2p(data_dir)\<close>;
  \<^item> \<open>np_nanstd\<close> is \<^verbatim>\<open>numpy.nanstd\<close>.
\<close>

record env =
  get_suite2p_dir :: "task_key \<Rightarrow> path option"
  get_root_data_dir :: "path option"
  dir_exists :: "path \<Rightarrow> bool"
  glob_star :: "path \<Rightarrow> path list"
  is_file :: "path \<Rightarrow> bool"
  Suite2p_open :: "path \<Rightarrow> error + Suite2p"
  np_nanstd :: "array \<Rightarrow> real"

text \<open>\<^verbatim>\<open>pathlib.Path(Processing._get_suite2p_dir(key))\<close>\<close>

definition suite2p_data_dir :: "env \<Rightarrow> task_key \<Rightarrow> error + path" where
  "suite2p_data_dir e key =
     (case get_suite2p_dir e key of None \<Rightarrow> Inl TypeError | Some d \<Rightarrow> Inr d)"

subsection \<open>Segmentation\<close>

text \<open>The dictionary built for each mask; \<^verbatim>\<open>ignore_extra_fields=True\<close> lets the same list
  feed \<^verbatim>\<open>Mask\<close> and \<^verbatim>\<open>Cell\<close>, each taking its own columns.\<close>

record mask_dict =
  md_seg_key :: field_key
  md_mask :: int
  md_is_cell :: bool
  md_cell_prob :: real
  md_npix :: int
  md_center_x :: int
  md_center_y :: int
  md_xpix :: "int list"
  md_ypix :: "int list"
  md_weights :: array

definition Mask_columns :: "mask_dict \<Rightarrow> Mask_row" where
  "Mask_columns m =
     \<lparr>mask_key = fk_task (md_seg_key m), mask_id = md_mask m,
      mask_field_idx = fk_field_idx (md_seg_key m), mask_npix = md_npix m,
      center_x = md_center_x m, center_y = md_center_y m,
      mask_xpix = md_xpix m, mask_ypix = md_ypix m, weights = md_weights m\<rparr>"

definition Cell_columns :: "mask_dict \<Rightarrow> Cell_row" where
  "Cell_columns m =
     \<lparr>cell_key = fk_task (md_seg_key m), cell_mask = md_mask m,
      is_cell = md_is_cell m, cell_cell_prob = md_cell_prob m\<rparr>"

definition Mask_pk :: "Mask_row \<Rightarrow> task_key \<times> int" where
  "Mask_pk r = (mask_key r, mask_id r)"

definition Cell_pk :: "Cell_row \<Rightarrow> task_key \<times> int" where
  "Cell_pk r = (cell_key r, cell_mask r)"

text \<open>The body of the loop over one plane: every triple of
  \<^verbatim>\<open>zip(s2p.iscell, s2p.cell_prob, s2p.stat)\<close> is appended with the id
  \<^verbatim>\<open>mask_idx + mask_count\<close>.\<close>

definition plane_mask_dicts :: "field_key \<Rightarrow> nat \<Rightarrow> PlaneSuite2p \<Rightarrow> mask_dict list" where
  "plane_mask_dicts sk mask_count s2p =
     map (\<lambda>(mask_idx, c, pr, mask_stat).
            \<lparr>md_seg_key = sk, md_mask = int (mask_idx + mask_count),
             md_is_cell = c, md_cell_prob = pr, md_npix = npix mask_stat,
             md_center_x = snd (med mask_stat), md_center_y = fst (med mask_stat),
             md_xpix = xpix mask_stat, md_ypix = ypix mask_stat,
             md_weights = lam mask_stat\<rparr>)
         (enumerate 0 (zip (iscell s2p) (zip (cell_prob s2p) (stat s2p))))"

text \<open>The loop over \<^verbatim>\<open>s2p_loader.planes.items()\<close>, with the list \<^verbatim>\<open>masks\<close> as accumulator.\<close>

fun segmentation_planes ::
  "store \<Rightarrow> task_key \<Rightarrow> (int \<times> PlaneSuite2p) list \<Rightarrow> mask_dict list \<Rightarrow> error + mask_dict list"
where
  "segmentation_planes st key [] masks = Inr masks"
| "segmentation_planes st key ((pl, s2p) # rest) masks =
     (case fetch1_field_KEY st key pl of
        Inl e \<Rightarrow> Inl e
      | Inr sk \<Rightarrow>
          segmentation_planes st key rest (masks @ plane_mask_dicts sk (length masks) s2p))"

text \<open>A make step returns the store as it stands when the step ends, and the exception
  that ended it, if any.\<close>

definition Segmentation_make :: "env \<Rightarrow> store \<Rightarrow> task_key \<Rightarrow> store \<times> error option" where
  "Segmentation_make e st key =
     (case fetch1_processing_method st key of
        Inl err \<Rightarrow> (st, Some err)
      | Inr method \<Rightarrow>
          if method = ''suite2p'' then
            (case suite2p_data_dir e key of
               Inl err \<Rightarrow> (st, Some err)
             | Inr data_dir \<Rightarrow>
            (case Suite2p_open e data_dir of
               Inl err \<Rightarrow> (st, Some err)
             | Inr s2p_loader \<Rightarrow>
            (case planes_getitem s2p_loader 0 of
               Inl err \<Rightarrow> (st, Some err)
             | Inr plane0 \<Rightarrow>
            (case insert1 seg_key (Segmentation st)
                    \<lparr>seg_key = key, seg_channel = segmentation_channel plane0\<rparr> of
               Inl err \<Rightarrow> (st, Some err)
             | Inr t1 \<Rightarrow>
                 let st1 = st\<lparr>Segmentation := t1\<rparr> in
            (case segmentation_planes st1 key (planes s2p_loader) [] of
               Inl err \<Rightarrow> (st1, Some err)
             | Inr masks \<Rightarrow>
            (case insert_rows Mask_pk (Mask st1) (map Mask_columns masks) of
               Inl err \<Rightarrow> (st1, Some err)
             | Inr t2 \<Rightarrow>
                 let st2 = st1\<lparr>Mask := t2\<rparr> in
            (case insert_rows Cell_pk (Cell st2) (map Cell_columns masks) of
               Inl err \<Rightarrow> (st2, Some err)
             | Inr t3 \<Rightarrow> (st2\<lparr>Cell := t3\<rparr>, None))))))))
          else (st, Some (NotImplementedError (''Unknown/unimplemented method: '' @ method))))"

subsection \<open>Fluorescence\<close>

definition Trace_pk :: "Trace_row \<Rightarrow> task_key \<times> int \<times> int" where
  "Trace_pk r = (trace_key r, trace_mask r, fluo_channel r)"

text \<open>One inner loop: the pairs of \<^verbatim>\<open>zip(fs, fneus)\<close>, numbered from \<^verbatim>\<open>mask_count\<close>, with the
  channel constant \<open>chn\<close>.\<close>

definition channel_traces ::
  "task_key \<Rightarrow> nat \<Rightarrow> int \<Rightarrow> array list \<Rightarrow> array list \<Rightarrow> Trace_row list" where
  "channel_traces key mask_count chn fs fneus =
     map (\<lambda>(mask_idx, f, fneu).
            \<lparr>trace_key = key, trace_mask = int (mask_idx + mask_count), fluo_channel = chn,
             fluo = f, neuropil_fluo = fneu\<rparr>)
         (enumerate 0 (zip fs fneus))"

text \<open>What one plane appends to \<^verbatim>\<open>fluo_traces\<close>; \<^verbatim>\<open>mask_count\<close> is read once, before the
  first inner loop.\<close>

definition plane_traces :: "task_key \<Rightarrow> nat \<Rightarrow> PlaneSuite2p \<Rightarrow> Trace_row list" where
  "plane_traces key mask_count s2p =
     channel_traces key mask_count 0 (F s2p) (Fneu s2p) @
     (if length (F_chan2 s2p) \<noteq> 0
      then channel_traces key mask_count 1 (F_chan2 s2p) (Fneu_chan2 s2p) else [])"

text \<open>The loop over \<^verbatim>\<open>s2p_loader.planes.values()\<close>.\<close>

fun fluorescence_planes :: "task_key \<Rightarrow> PlaneSuite2p list \<Rightarrow> Trace_row list \<Rightarrow> Trace_row list"
where
  "fluorescence_planes key [] fluo_traces = fluo_traces"
| "fluorescence_planes key (s2p # rest) fluo_traces =
     fluorescence_planes key rest (fluo_traces @ plane_traces key (length fluo_traces) s2p)"

definition Fluorescence_make :: "env \<Rightarrow> store \<Rightarrow> task_key \<Rightarrow> store \<times> error option" where
  "Fluorescence_make e st key =
     (case fetch1_processing_method st key of
        Inl err \<Rightarrow> (st, Some err)
      | Inr method \<Rightarrow>
          if method = ''suite2p'' then
            (case suite2p_data_dir e key of
               Inl err \<Rightarrow> (st, Some err)
             | Inr data_dir \<Rightarrow>
            (case Suite2p_open e data_dir of
               Inl err \<Rightarrow> (st, Some err)
             | Inr s2p_loader \<Rightarrow>
            (case insert1 id (Fluorescence st) key of
               Inl err \<Rightarrow> (st, Some err)
             | Inr t1 \<Rightarrow>
                 let st1 = st\<lparr>Fluorescence := t1\<rparr>;
                     fluo_traces = fluorescence_planes key (map snd (planes s2p_loader)) [] in
            (case insert_rows Trace_pk (Trace st1) fluo_traces of
               Inl err \<Rightarrow> (st1, Some err)
             | Inr t2 \<Rightarrow> (st1\<lparr>Trace := t2\<rparr>, None)))))
          else (st, Some (NotImplementedError (''Unknown/unimplemented method: '' @ method))))"

subsection \<open>Motion correction\<close>

definition rigid_mc :: "env \<Rightarrow> field_key \<Rightarrow> PlaneSuite2p \<Rightarrow> RigidMotionCorrection_row" where
  "rigid_mc e mck s2p =
     \<lparr>rigid_key = mck, rigid_outlier_frames = badframes (ops s2p),
      rigid_y_shifts = yoff (ops s2p), rigid_x_shifts = xoff (ops s2p),
      rigid_y_std = np_nanstd e (yoff (ops s2p)), rigid_x_std = np_nanstd e (xoff (ops s2p)),
      rigid_z_drift = None\<rparr>"

definition nonrigid_mc :: "field_key \<Rightarrow> PlaneSuite2p \<Rightarrow> NonRigidMotionCorrection_row" where
  "nonrigid_mc mck s2p =
     \<lparr>nonrigid_key = mck, nonrigid_outlier_frames = badframes (ops s2p),
      block_height = fst (block_size (ops s2p)), block_width = snd (block_size (ops s2p)),
      block_count_y = fst (nblocks (ops s2p)), block_count_x = snd (nblocks (ops s2p)),
      nonrigid_z_drift = None\<rparr>"

text \<open>The source zips \<^verbatim>\<open>xblock\<close> first and \<^verbatim>\<open>yblock\<close> second and unpacks the pair as
  \<^verbatim>\<open>(b_y, b_x, ...)\<close>; the model keeps that order.\<close>

definition nr_blocks :: "env \<Rightarrow> field_key \<Rightarrow> PlaneSuite2p \<Rightarrow> Block_row list" where
  "nr_blocks e mck s2p =
     map (\<lambda>(b_id, b_y, b_x, bshift_y, bshift_x).
            \<lparr>block_key = mck, block_id = int b_id, block_y = b_y, block_x = b_x,
             block_y_shifts = bshift_y, block_x_shifts = bshift_x,
             block_y_std = np_nanstd e bshift_y, block_x_std = np_nanstd e bshift_x\<rparr>)
         (enumerate 0
            (zip (xblock (ops s2p)) (zip (yblock (ops s2p))
               (zip (ndarray_rows (ndarray_T (yoff1 (ops s2p))))
                    (ndarray_rows (ndarray_T (xoff1 (ops s2p))))))))"

definition Block_pk :: "Block_row \<Rightarrow> field_key \<times> int" where
  "Block_pk r = (block_key r, block_id r)"

text \<open>The loop over \<^verbatim>\<open>s2p_loader.planes.items()\<close>; every insert acts on the store at once.\<close>

fun motion_correction_planes ::
  "env \<Rightarrow> task_key \<Rightarrow> (int \<times> PlaneSuite2p) list \<Rightarrow> store \<Rightarrow> store \<times> error option"
where
  "motion_correction_planes e key [] st = (st, None)"
| "motion_correction_planes e key ((pl, s2p) # rest) st =
     (case fetch1_field_KEY st key pl of
        Inl err \<Rightarrow> (st, Some err)
      | Inr mck \<Rightarrow>
     (case insert1 rigid_key (RigidMotionCorrection st) (rigid_mc e mck s2p) of
        Inl err \<Rightarrow> (st, Some err)
      | Inr t1 \<Rightarrow>
          let st1 = st\<lparr>RigidMotionCorrection := t1\<rparr> in
          if nonrigid (ops s2p) then
            (case insert1 nonrigid_key (NonRigidMotionCorrection st1) (nonrigid_mc mck s2p) of
               Inl err \<Rightarrow> (st1, Some err)
             | Inr t2 \<Rightarrow>
                 let st2 = st1\<lparr>NonRigidMotionCorrection := t2\<rparr> in
            (case insert_rows Block_pk (Block st2) (nr_blocks e mck s2p) of
               Inl err \<Rightarrow> (st2, Some err)
             | Inr t3 \<Rightarrow> motion_correction_planes e key rest (st2\<lparr>Block := t3\<rparr>)))
          else motion_correction_planes e key rest st1))"

definition MotionCorrection_make :: "env \<Rightarrow> store \<Rightarrow> task_key \<Rightarrow> store \<times> error option" where
  "MotionCorrection_make e st key =
     (case fetch1_processing_method st key of
        Inl err \<Rightarrow> (st, Some err)
      | Inr method \<Rightarrow>
          if method = ''suite2p'' then
            (case suite2p_data_dir e key of
               Inl err \<Rightarrow> (st, Some err)
             | Inr data_dir \<Rightarrow>
            (case Suite2p_open e data_dir of
               Inl err \<Rightarrow> (st, Some err)
             | Inr s2p_loader \<Rightarrow>
            (case planes_getitem s2p_loader 0 of
               Inl err \<Rightarrow> (st, Some err)
             | Inr plane0 \<Rightarrow>
            (case insert1 mc_key (MotionCorrection st)
                    \<lparr>mc_key = key, mc_channel = alignment_channel plane0\<rparr> of
               Inl err \<Rightarrow> (st, Some err)
             | Inr t1 \<Rightarrow>
                 motion_correction_planes e key (planes s2p_loader)
                   (st\<lparr>MotionCorrection := t1\<rparr>)))))
          else (st, Some (NotImplementedError (''Unknown/unimplemented method: '' @ method))))"

subsection \<open>Summary images\<close>

text \<open>\<^verbatim>\<open>s2p_loader.items()\<close>: the step asks the loader handle itself for \<^verbatim>\<open>items\<close>, where
  the other steps ask its dictionary \<^verbatim>\<open>planes\<close>. The handle has the attributes
  \<open>planes\<close>, \<open>creation_time\<close> and \<open>curation_time\<close> and nothing else, so the attribute
  lookup raises.\<close>

definition Suite2p_items :: "Suite2p \<Rightarrow> error + (int \<times> PlaneSuite2p) list" where
  "Suite2p_items s2p_loader = Inl AttributeError"

definition img_dict :: "field_key \<Rightarrow> PlaneSuite2p \<Rightarrow> MotionCorrectedImages_row" where
  "img_dict mck s2p =
     \<lparr>img_key = mck, img_ref_image = ref_image s2p, img_average_image = mean_image s2p,
      img_correlation_image = correlation_map s2p, img_max_proj_image = max_proj_image s2p\<rparr>"

fun motion_corrected_images_planes ::
  "task_key \<Rightarrow> (int \<times> PlaneSuite2p) list \<Rightarrow> store \<Rightarrow> store \<times> error option"
where
  "motion_corrected_images_planes key [] st = (st, None)"
| "motion_corrected_images_planes key ((pl, s2p) # rest) st =
     (case fetch1_field_KEY st key pl of
        Inl err \<Rightarrow> (st, Some err)
      | Inr mck \<Rightarrow>
     (case insert1 img_key (MotionCorrectedImages st) (img_dict mck s2p) of
        Inl err \<Rightarrow> (st, Some err)
      | Inr t1 \<Rightarrow> motion_corrected_images_planes key rest (st\<lparr>MotionCorrectedImages := t1\<rparr>)))"

definition MotionCorrectedImages_make :: "env \<Rightarrow> store \<Rightarrow> task_key \<Rightarrow> store \<times> error option"
where
  "MotionCorrectedImages_make e st key =
     (case fetch1_processing_method st key of
        Inl err \<Rightarrow> (st, Some err)
      | Inr method \<Rightarrow>
          if method = ''suite2p'' then
            (case suite2p_data_dir e key of
               Inl err \<Rightarrow> (st, Some err)
             | Inr data_dir \<Rightarrow>
            (case Suite2p_open e data_dir of
               Inl err \<Rightarrow> (st, Some err)
             | Inr s2p_loader \<Rightarrow>
            (case Suite2p_items s2p_loader of
               Inl err \<Rightarrow> (st, Some err)
             | Inr items \<Rightarrow> motion_corrected_images_planes key items st)))
          else (st, Some (NotImplementedError (''Unknown/unimplemented method: '' @ method))))"

subsection \<open>Processing\<close>

text \<open>\<^verbatim>\<open>pathlib.Path(PhysicalFile._get_root_data_dir())\<close>\<close>

definition root_data_dir :: "env \<Rightarrow> error + path" where
  "root_data_dir e = (case get_root_data_dir e of None \<Rightarrow> Inl TypeError | Some d \<Rightarrow> Inr d)"

text \<open>\<^verbatim>\<open>f.relative_to(root)\<close> raises \<^verbatim>\<open>ValueError\<close> unless the root is a prefix of \<open>f\<close>.\<close>

definition relative_to :: "path \<Rightarrow> path \<Rightarrow> error + path" where
  "relative_to f root_dir =
     (if take (length root_dir) f = root_dir then Inr (drop (length root_dir) f) else Inl ValueError)"

text \<open>\<^verbatim>\<open>[pathlib.Path(f).relative_to(root).as_posix() for f in files if f.is_file()]\<close>\<close>

fun relative_files :: "env \<Rightarrow> path \<Rightarrow> path list \<Rightarrow> error + path list" where
  "relative_files e root_dir [] = Inr []"
| "relative_files e root_dir (f # fs) =
     (if is_file e f then
        (case relative_to f root_dir of
           Inl err \<Rightarrow> Inl err
         | Inr r \<Rightarrow>
             (case relative_files e root_dir fs of Inl err \<Rightarrow> Inl err | Inr rs \<Rightarrow> Inr (r # rs)))
      else relative_files e root_dir fs)"

definition Processing_make :: "env \<Rightarrow> store \<Rightarrow> task_key \<Rightarrow> store \<times> error option" where
  "Processing_make e st key =
     (case fetch1_processing_method st key of
        Inl err \<Rightarrow> (st, Some err)
      | Inr method \<Rightarrow>
          if method = ''suite2p'' then
            (case suite2p_data_dir e key of
               Inl err \<Rightarrow> (st, Some err)
             | Inr data_dir \<Rightarrow>
                 if dir_exists e data_dir then
                   (case Suite2p_open e data_dir of
                      Inl err \<Rightarrow> (st, Some err)
                    | Inr s2p_loader \<Rightarrow>
                   (case insert1 p_key (Processing st)
                           \<lparr>p_key = key, start_time = None,
                            completion_time = creation_time s2p_loader,
                            p_curation_time = curation_time s2p_loader\<rparr> of
                      Inl err \<Rightarrow> (st, Some err)
                    | Inr t1 \<Rightarrow>
                        let st1 = st\<lparr>Processing := t1\<rparr> in
                   (case root_data_dir e of
                      Inl err \<Rightarrow> (st1, Some err)
                    | Inr root_dir \<Rightarrow>
                   (case relative_files e root_dir (glob_star e data_dir) of
                      Inl err \<Rightarrow> (st1, Some err)
                    | Inr files \<Rightarrow>
                        let st2 = st1\<lparr>PhysicalFile :=
                                        insert_skip_duplicates id (PhysicalFile st1) files\<rparr> in
                   (case insert_rows id (ProcessingOutputFile st2) (map (Pair key) files) of
                      Inl err \<Rightarrow> (st2, Some err)
                    | Inr t3 \<Rightarrow> (st2\<lparr>ProcessingOutputFile := t3\<rparr>, None))))))
                 else (st, None))
          else (st, Some (NotImplementedError (''Unknown method: '' @ method))))"

text \<open>\<^verbatim>\<open>key_source = ProcessingTask & ScanInfo\<close>: the tasks whose scan has a \<^verbatim>\<open>ScanInfo\<close> row.\<close>

definition Processing_key_source :: "store \<Rightarrow> task_key list" where
  "Processing_key_source st = [task t. t \<leftarrow> ProcessingTask st, scan (task t) \<in> set (ScanInfo st)]"

definition Processing_keys :: "store \<Rightarrow> task_key list" where
  "Processing_keys st = map p_key (Processing st)"

subsection \<open>The population pass\<close>

text \<open>Modelled from the spec: the key source resolver and the population pass (the
  driver that calls the make steps belongs to the datajoint library and is not under src/).
  Section 4.3: the eligible keys are those of the key source that the target does not hold
  yet. Sections 4.4, 5 and 7: the pass visits the keys one after the other; a make step
  that raises leaves the store as it was before that key and the failure is recorded for
  the key; a step that returns without inserting leaves the key pending; the pass goes on
  with the next key and returns the outcomes.\<close>

definition eligible :: "(store \<Rightarrow> task_key list) \<Rightarrow> (store \<Rightarrow> task_key list) \<Rightarrow> store \<Rightarrow> task_key list"
where
  "eligible key_source keys_present st = [k \<leftarrow> key_source st. k \<notin> set (keys_present st)]"

datatype outcome = Succeeded | Pending | Failed error

fun populate_keys ::
  "(store \<Rightarrow> task_key \<Rightarrow> store \<times> error option) \<Rightarrow> (store \<Rightarrow> task_key list) \<Rightarrow>
   task_key list \<Rightarrow> store \<Rightarrow> store \<times> (task_key \<times> outcome) list"
where
  "populate_keys mk keys_present [] st = (st, [])"
| "populate_keys mk keys_present (k # ks) st =
     (case mk st k of
        (st', Some err) \<Rightarrow>
          (case populate_keys mk keys_present ks st of
             (st'', outs) \<Rightarrow> (st'', (k, Failed err) # outs))
      | (st', None) \<Rightarrow>
          (case populate_keys mk keys_present ks st' of
             (st'', outs) \<Rightarrow>
               (st'', (k, if k \<in> set (keys_present st') then Succeeded else Pending) # outs)))"

definition populate ::
  "(store \<Rightarrow> task_key \<Rightarrow> store \<times> error option) \<Rightarrow> (store \<Rightarrow> task_key list) \<Rightarrow>
   (store \<Rightarrow> task_key list) \<Rightarrow> store \<Rightarrow> store \<times> (task_key \<times> outcome) list"
where
  "populate mk key_source keys_present st =
     populate_keys mk keys_present (eligible key_source keys_present st) st"

text \<open>The keys each target table holds.\<close>

definition MotionCorrection_keys :: "store \<Rightarrow> task_key list" where
  "MotionCorrection_keys st = map mc_key (MotionCorrection st)"

definition MotionCorrectedImages_keys :: "store \<Rightarrow> task_key list" where
  "MotionCorrectedImages_keys st = map (fk_task \<circ> img_key) (MotionCorrectedImages st)"

definition Segmentation_keys :: "store \<Rightarrow> task_key list" where
  "Segmentation_keys st = map seg_key (Segmentation st)"

subsection \<open>Quantities the statements use\<close>

text \<open>The number of masks a plane reports: the length of
  \<^verbatim>\<open>zip(s2p.iscell, s2p.cell_prob, s2p.stat)\<close>.\<close>

definition n_masks :: "PlaneSuite2p \<Rightarrow> nat" where
  "n_masks s2p = min (length (iscell s2p)) (min (length (cell_prob s2p)) (length (stat s2p)))"

definition total_masks :: "Suite2p \<Rightarrow> nat" where
  "total_masks L = sum_list (map (\<lambda>p. n_masks (snd p)) (planes L))"

text \<open>A make step \<open>mk\<close> fails for \<open>key\<close> only: it raises \<open>err\<close> with the store
  untouched, and a pass that meets the key records the failure for it and treats the
  remaining keys as it would without it.\<close>

definition fails_for_key_only ::
  "(store \<Rightarrow> task_key \<Rightarrow> store \<times> error option) \<Rightarrow> task_key \<Rightarrow> error \<Rightarrow> store \<Rightarrow> bool" where
  "fails_for_key_only mk key err st \<longleftrightarrow>
     mk st key = (st, Some err) \<and>
     (\<forall>kp ks. populate_keys mk kp (key # ks) st =
        (fst (populate_keys mk kp ks st), (key, Failed err) # snd (populate_keys mk kp ks st)))"

text \<open>The rows a step appended to a table.\<close>

definition new_rows :: "'a list \<Rightarrow> 'a list \<Rightarrow> 'a list" where
  "new_rows before after = drop (length before) after"

text \<open>The ordering the data model asks of a \<open>Processing\<close> row: no curation time, or one
  that is not before the completion time.\<close>

definition curation_after_completion :: "Processing_row \<Rightarrow> bool" where
  "curation_after_completion r =
     (case p_curation_time r of None \<Rightarrow> True | Some c \<Rightarrow> completion_time r \<le> c)"

text \<open>The columns of a trace row that do not depend on the numbering.\<close>

definition trace_payload :: "Trace_row \<Rightarrow> int \<times> array \<times> array" where
  "trace_payload r = (fluo_channel r, fluo r, neuropil_fluo r)"

subsection \<open>A concrete scan for the examples\<close>

text \<open>Scan \<open>S1\<close> with two fields, one per plane, and one processing task; the loader
  reports two planes.\<close>

definition key_S1 :: task_key where
  "key_S1 = \<lparr>scan = ''S1'', processing_instance = 0\<rparr>"

definition store_S1 :: "string \<Rightarrow> store" where
  "store_S1 m =
     \<lparr>ProcessingTask = [\<lparr>task = key_S1, processing_method = m, paramset_idx = 0\<rparr>],
      ScanInfo = [''S1''],
      ScanInfo_Field = [\<lparr>field_scan = ''S1'', field_idx = 0, plane = 0\<rparr>,
                        \<lparr>field_scan = ''S1'', field_idx = 1, plane = 1\<rparr>],
      Processing = [], PhysicalFile = [], ProcessingOutputFile = [],
      MotionCorrection = [], RigidMotionCorrection = [], NonRigidMotionCorrection = [],
      Block = [], MotionCorrectedImages = [], Segmentation = [], Mask = [], Cell = [],
      Fluorescence = [], Trace = []\<rparr>"

definition example_ops :: "bool \<Rightarrow> ops_dict" where
  "example_ops nr =
     \<lparr>yoff = [1, 0], xoff = [0, 1], badframes = [False, False], nonrigid = nr,
      block_size = (128, 128), nblocks = (1, 2),
      xblock = [[0, 128], [128, 256]], yblock = [[0, 128], [0, 128]],
      yoff1 = \<lparr>shape0 = 2, shape1 = 2, item = (\<lambda>i j. 0)\<rparr>,
      xoff1 = \<lparr>shape0 = 2, shape1 = 2, item = (\<lambda>i j. 1)\<rparr>\<rparr>"

definition example_stat :: mask_stat where
  "example_stat = \<lparr>npix = 2, med = (3, 4), xpix = [4, 5], ypix = [3, 3], lam = [1, 1]\<rparr>"

definition example_plane :: "int \<Rightarrow> bool \<Rightarrow> bool list \<Rightarrow> nat \<Rightarrow> PlaneSuite2p" where
  "example_plane chn nr cells n2 =
     \<lparr>alignment_channel = chn, segmentation_channel = chn, ops = example_ops nr,
      iscell = cells, cell_prob = map (\<lambda>c. if c then 1 else 0) cells,
      stat = map (\<lambda>c. example_stat) cells,
      F = map (\<lambda>c. [1]) cells, Fneu = map (\<lambda>c. [0]) cells,
      F_chan2 = replicate n2 [2], Fneu_chan2 = replicate n2 [0],
      ref_image = [[0]], mean_image = [[1]], correlation_map = None,
      max_proj_image = Some [[2]]\<rparr>"

definition example_loader :: "PlaneSuite2p \<Rightarrow> PlaneSuite2p \<Rightarrow> datetime \<Rightarrow> datetime option \<Rightarrow> Suite2p" where
  "example_loader p0 p1 t0 t1 = \<lparr>planes = [(0, p0), (1, p1)], creation_time = t0, curation_time = t1\<rparr>"

definition example_env :: "Suite2p \<Rightarrow> bool \<Rightarrow> env" where
  "example_env L ex =
     \<lparr>get_suite2p_dir = (\<lambda>k. Some [''data'', scan k, ''suite2p'']),
      get_root_data_dir = Some [''data''],
      dir_exists = (\<lambda>d. ex),
      glob_star = (\<lambda>d. [d @ [''plane0''], d @ [''ops.npy'']]),
      is_file = (\<lambda>f. last f = ''ops.npy''),
      Suite2p_open = (\<lambda>d. Inr L),
      np_nanstd = (\<lambda>a. 0)\<rparr>"

text \<open>A second task on the same scan, and a store in which the first task asks for
  \<open>caiman\<close> and the second for \<open>suite2p\<close>.\<close>

definition key_S1b :: task_key where
  "key_S1b = \<lparr>scan = ''S1'', processing_instance = 1\<rparr>"

definition store_two :: store where
  "store_two =
     (store_S1 ''caiman'')
       \<lparr>ProcessingTask :=
          [\<lparr>task = key_S1, processing_method = ''caiman'', paramset_idx = 0\<rparr>,
           \<lparr>task = key_S1b, processing_method = ''suite2p'', paramset_idx = 0\<rparr>]\<rparr>"

text \<open>Two planes with 3 and 2 masks, \<^verbatim>\<open>iscell = [true,false,true]\<close> and \<^verbatim>\<open>[true,true]\<close>.\<close>

definition loader_3_2 :: Suite2p where
  "loader_3_2 =
     example_loader (example_plane 1 False [True, False, True] 0)
                    (example_plane 1 False [True, True] 0) 10 (Some 20)"

text \<open>Two planes with one mask each. Plane 0 is corrected rigidly, aligned and segmented
  on channel 1 and has a second fluorescence channel; plane 1 is corrected non-rigidly,
  uses channel 2 and has no second fluorescence channel. The loader reports a curation time
  before its creation time.\<close>

definition loader_two_channel :: Suite2p where
  "loader_two_channel =
     example_loader (example_plane 1 False [True] 1) (example_plane 2 True [True] 0) 10 (Some 5)"

section \<open>Properties\<close>

subsection \<open>The record store and the queries\<close>

lemma insert_rows_Inr: "insert_rows pk tbl rs = Inr tbl' \<Longrightarrow> tbl' = tbl @ rs"
proof (induction rs arbitrary: tbl)
  case Nil
  then show ?case by simp
next
  case (Cons r rs)
  from Cons.prems have "insert_rows pk (tbl @ [r]) rs = Inr tbl'"
    by (simp add: insert1_def split: if_splits)
  from Cons.IH[OF this] show ?case by simp
qed

lemma fetch1_Inr: "fetch1 rows = Inr r \<Longrightarrow> rows = [r]"
  by (auto simp: fetch1_def split: list.splits)

subsection \<open>Numbering with \<^verbatim>\<open>enumerate\<close>\<close>

lemma map_fst_enum: "map (\<lambda>x. f (fst x)) (enumerate n xs) = map f [n..<n + length xs]"
proof -
  have "map (\<lambda>x. f (fst x)) (enumerate n xs) = map f (map fst (enumerate n xs))"
    by (simp only: map_map comp_def)
  then show ?thesis by (simp only: map_fst_enumerate)
qed

lemma map_snd_enum: "map (\<lambda>x. g (snd x)) (enumerate n xs) = map g xs"
proof -
  have "map (\<lambda>x. g (snd x)) (enumerate n xs) = map g (map snd (enumerate n xs))"
    by (simp only: map_map comp_def)
  then show ?thesis by (simp only: map_snd_enumerate)
qed

subsection \<open>Segmentation: mask ids\<close>

lemma length_plane_mask_dicts: "length (plane_mask_dicts sk c s2p) = n_masks s2p"
  by (simp add: plane_mask_dicts_def n_masks_def)

lemma mask_plane_mask_dicts:
  "map md_mask (plane_mask_dicts sk c s2p) = map int [c..<c + n_masks s2p]"
proof -
  let ?z = "zip (iscell s2p) (zip (cell_prob s2p) (stat s2p))"
  have "map md_mask (plane_mask_dicts sk c s2p) = map (\<lambda>x. int (fst x + c)) (enumerate 0 ?z)"
    by (simp add: plane_mask_dicts_def case_prod_unfold comp_def)
  also have "\<dots> = map (\<lambda>i. int (i + c)) [0..<n_masks s2p]"
    using map_fst_enum[of "\<lambda>i. int (i + c)" 0 ?z] by (simp add: n_masks_def)
  also have "\<dots> = map int (map (\<lambda>i. i + c) [0..<n_masks s2p])"
    by simp
  also have "map (\<lambda>i. i + c) [0..<n_masks s2p] = [c..<c + n_masks s2p]"
    using map_add_upt[of c "n_masks s2p"] by (simp add: add.commute)
  finally show ?thesis .
qed

lemma is_cell_plane_mask_dicts:
  "map md_is_cell (plane_mask_dicts sk c s2p) = take (n_masks s2p) (iscell s2p)"
proof -
  let ?z = "zip (iscell s2p) (zip (cell_prob s2p) (stat s2p))"
  have "map md_is_cell (plane_mask_dicts sk c s2p) = map (\<lambda>x. fst (snd x)) (enumerate 0 ?z)"
    by (simp add: plane_mask_dicts_def case_prod_unfold comp_def)
  also have "\<dots> = map fst ?z" by (rule map_snd_enum)
  also have "\<dots> = take (n_masks s2p) (iscell s2p)"
    by (simp add: map_fst_zip_take n_masks_def)
  finally show ?thesis .
qed

lemma seg_key_plane_mask_dicts:
  assumes "m \<in> set (plane_mask_dicts sk c s2p)"
  shows "md_seg_key m = sk"
proof -
  have "map md_seg_key (plane_mask_dicts sk c s2p) = replicate (n_masks s2p) sk"
    by (simp add: plane_mask_dicts_def case_prod_unfold comp_def map_replicate_const n_masks_def)
  moreover from assms have "md_seg_key m \<in> set (map md_seg_key (plane_mask_dicts sk c s2p))"
    by (simp only: set_map) (rule imageI)
  ultimately show ?thesis by simp
qed

lemma fetch1_field_KEY_task:
  assumes "fetch1_field_KEY st key pl = Inr sk"
  shows "fk_task sk = key"
proof -
  let ?q = "[\<lparr>fk_task = task t, fk_field_idx = field_idx f\<rparr>.
               f \<leftarrow> ScanInfo_Field st, t \<leftarrow> ProcessingTask st,
               field_scan f = scan (task t), task t = key, plane f = pl]"
  from assms have "?q = [sk]"
    unfolding fetch1_field_KEY_def by (rule fetch1_Inr)
  then have "sk \<in> set ?q" by simp
  moreover have "\<forall>x \<in> set ?q. fk_task x = key"
    by simp
  ultimately show ?thesis by blast
qed

lemma segmentation_planes_masks:
  "segmentation_planes st key ps masks = Inr ms \<Longrightarrow>
   \<exists>new. ms = masks @ new \<and>
     map md_mask new = map int [length masks..<length masks + sum_list (map (\<lambda>p. n_masks (snd p)) ps)] \<and>
     map md_is_cell new = concat (map (\<lambda>p. take (n_masks (snd p)) (iscell (snd p))) ps) \<and>
     (\<forall>m \<in> set new. fk_task (md_seg_key m) = key)"
proof (induction ps arbitrary: masks)
  case Nil
  then show ?case by simp
next
  case (Cons p ps)
  obtain pl s2p where p: "p = (pl, s2p)" by (cases p)
  from Cons.prems p obtain sk where sk: "fetch1_field_KEY st key pl = Inr sk"
    and rec: "segmentation_planes st key ps (masks @ plane_mask_dicts sk (length masks) s2p) = Inr ms"
    by (auto split: sum.splits)
  from Cons.IH[OF rec] obtain new where new: "ms = (masks @ plane_mask_dicts sk (length masks) s2p) @ new"
    "map md_mask new = map int [length masks + n_masks s2p ..< length masks + n_masks s2p + sum_list (map (\<lambda>p. n_masks (snd p)) ps)]"
    "map md_is_cell new = concat (map (\<lambda>p. take (n_masks (snd p)) (iscell (snd p))) ps)"
    "\<forall>m \<in> set new. fk_task (md_seg_key m) = key"
    by (auto simp: length_plane_mask_dicts)
  let ?new = "plane_mask_dicts sk (length masks) s2p @ new"
  have "ms = masks @ ?new" using new(1) by simp
  moreover have "map md_mask ?new = map int [length masks..<length masks + sum_list (map (\<lambda>p. n_masks (snd p)) (p # ps))]"
  proof -
    let ?c = "length masks" and ?n = "n_masks s2p" and ?s = "sum_list (map (\<lambda>p. n_masks (snd p)) ps)"
    have "[?c..<?c + ?n + ?s] = [?c..<?c + ?n] @ [?c + ?n..<?c + ?n + ?s]"
      by (rule upt_add_eq_append) simp
    moreover have "sum_list (map (\<lambda>p. n_masks (snd p)) (p # ps)) = ?n + ?s"
      using p by simp
    ultimately have "[?c..<?c + sum_list (map (\<lambda>p. n_masks (snd p)) (p # ps))] =
        [?c..<?c + ?n] @ [?c + ?n..<?c + ?n + ?s]"
      by (simp only: add.assoc)
    then show ?thesis
      using new(2) by (simp only: map_append mask_plane_mask_dicts)
  qed
  moreover have "map md_is_cell ?new = concat (map (\<lambda>p. take (n_masks (snd p)) (iscell (snd p))) (p # ps))"
    using new(3) p by (simp add: is_cell_plane_mask_dicts)
  moreover have "\<forall>m \<in> set ?new. fk_task (md_seg_key m) = key"
    using new(4) fetch1_field_KEY_task[OF sk] by (auto dest: seg_key_plane_mask_dicts)
  ultimately show ?case by blast
qed

text \<open>Claim C1. When a Segmentation make step on \<open>key\<close> returns normally for a loader
  output \<open>L\<close>, it appends to \<open>Mask\<close> exactly as many rows as the planes of \<open>L\<close> report
  masks in total, numbered \<open>0, 1, ...\<close> without gap or collision in plane-then-local order,
  and to \<open>Cell\<close> as many rows with the same ids, whose \<open>is_cell\<close> flags are the loader's
  \<open>iscell\<close> values in that order; all rows carry the key of the step.\<close>

theorem Segmentation_make_mask_ids:
  assumes dir: "get_suite2p_dir e key = Some d"
    and loader: "Suite2p_open e d = Inr L"
    and make: "Segmentation_make e st key = (st', None)"
  shows "\<exists>ms cs. Mask st' = Mask st @ ms \<and> Cell st' = Cell st @ cs \<and>
           length ms = total_masks L \<and> length cs = total_masks L \<and>
           map mask_id ms = map int [0..<total_masks L] \<and> distinct (map mask_id ms) \<and>
           map cell_mask cs = map int [0..<total_masks L] \<and>
           map is_cell cs =
             concat (map (\<lambda>p. take (n_masks (snd p)) (iscell (snd p))) (planes L)) \<and>
           list_all (\<lambda>m. mask_key m = key) ms \<and> list_all (\<lambda>c. cell_key c = key) cs"
proof -
  from make dir loader obtain t1 masks t2 t3 where
    seg: "segmentation_planes (st\<lparr>Segmentation := t1\<rparr>) key (planes L) [] = Inr masks"
    and m: "insert_rows Mask_pk (Mask st) (map Mask_columns masks) = Inr t2"
    and c: "insert_rows Cell_pk (Cell st) (map Cell_columns masks) = Inr t3"
    and st': "st' = st\<lparr>Segmentation := t1, Mask := t2, Cell := t3\<rparr>"
    by (auto simp: Segmentation_make_def suite2p_data_dir_def Let_def
             split: sum.splits if_splits)
  from segmentation_planes_masks[OF seg] have
    ids: "map md_mask masks = map int [0..<total_masks L]"
    and cells: "map md_is_cell masks =
                  concat (map (\<lambda>p. take (n_masks (snd p)) (iscell (snd p))) (planes L))"
    and keys: "\<forall>m \<in> set masks. fk_task (md_seg_key m) = key"
    by (auto simp: total_masks_def)
  from ids have len: "length masks = total_masks L"
    by (metis length_map length_upt minus_nat.diff_0)
  let ?ms = "map Mask_columns masks" and ?cs = "map Cell_columns masks"
  have M: "Mask st' = Mask st @ ?ms" using insert_rows_Inr[OF m] st' by simp
  have C: "Cell st' = Cell st @ ?cs" using insert_rows_Inr[OF c] st' by simp
  have mid: "map mask_id ?ms = map int [0..<total_masks L]"
    using ids by (simp add: Mask_columns_def comp_def)
  have cid: "map cell_mask ?cs = map int [0..<total_masks L]"
    using ids by (simp add: Cell_columns_def comp_def)
  have cc: "map is_cell ?cs =
              concat (map (\<lambda>p. take (n_masks (snd p)) (iscell (snd p))) (planes L))"
    using cells by (simp add: Cell_columns_def comp_def)
  have dist: "distinct (map mask_id ?ms)"
    unfolding mid by (simp add: distinct_map inj_on_def)
  have mk: "list_all (\<lambda>m. mask_key m = key) ?ms"
    using keys by (simp add: list_all_iff Mask_columns_def)
  have ck: "list_all (\<lambda>c. cell_key c = key) ?cs"
    using keys by (simp add: list_all_iff Cell_columns_def)
  from M C len mid cid cc dist mk ck show ?thesis
    by (intro exI[of _ ?ms] exI[of _ ?cs]) simp
qed

text \<open>The end-to-end example: 2 planes with 3 and 2 masks.\<close>

lemma Segmentation_make_3_2:
  "Segmentation_make (example_env loader_3_2 True) (store_S1 ''suite2p'') key_S1 =
     (store_S1 ''suite2p''
        \<lparr>Segmentation := [\<lparr>seg_key = key_S1, seg_channel = 1\<rparr>],
         Mask := map (\<lambda>(i, f). \<lparr>mask_key = key_S1, mask_id = i, mask_field_idx = f, mask_npix = 2,
                       center_x = 4, center_y = 3, mask_xpix = [4, 5], mask_ypix = [3, 3],
                       weights = [1, 1]\<rparr>) [(0, 0), (1, 0), (2, 0), (3, 1), (4, 1)],
         Cell := map (\<lambda>(i, c). \<lparr>cell_key = key_S1, cell_mask = i, is_cell = c,
                       cell_cell_prob = (if c then 1 else 0)\<rparr>)
                   [(0, True), (1, False), (2, True), (3, True), (4, True)]\<rparr>, None)"
  by (simp add: Segmentation_make_def fetch1_processing_method_def fetch1_def
        ProcessingMethod_contents_def store_S1_def key_S1_def example_env_def
        suite2p_data_dir_def loader_3_2_def example_loader_def example_plane_def
        planes_getitem_def insert1_def fetch1_field_KEY_def plane_mask_dicts_def
        Mask_columns_def Cell_columns_def Mask_pk_def Cell_pk_def example_stat_def
        enumerate_eq_zip)

theorem Segmentation_make_mask_ids_witness:
  "get_suite2p_dir (example_env loader_3_2 True) key_S1 = Some [''data'', ''S1'', ''suite2p''] \<and>
   Suite2p_open (example_env loader_3_2 True) [''data'', ''S1'', ''suite2p''] = Inr loader_3_2 \<and>
   snd (Segmentation_make (example_env loader_3_2 True) (store_S1 ''suite2p'') key_S1) = None \<and>
   map (n_masks \<circ> snd) (planes loader_3_2) = [3, 2] \<and>
   map (iscell \<circ> snd) (planes loader_3_2) = [[True, False, True], [True, True]] \<and>
   map mask_id (Mask (fst (Segmentation_make (example_env loader_3_2 True) (store_S1 ''suite2p'') key_S1)))
     = [0, 1, 2, 3, 4] \<and>
   map cell_mask (Cell (fst (Segmentation_make (example_env loader_3_2 True) (store_S1 ''suite2p'') key_S1)))
     = [0, 1, 2, 3, 4] \<and>
   map is_cell (Cell (fst (Segmentation_make (example_env loader_3_2 True) (store_S1 ''suite2p'') key_S1)))
     = [True, False, True, True, True]"
proof -
  let ?e = "example_env loader_3_2 True" and ?st = "store_S1 ''suite2p''"
  let ?d = "[''data'', ''S1'', ''suite2p'']"
  have dir: "get_suite2p_dir ?e key_S1 = Some ?d"
    by (simp add: example_env_def key_S1_def)
  have loader: "Suite2p_open ?e ?d = Inr loader_3_2"
    by (simp add: example_env_def)
  have ok: "snd (Segmentation_make ?e ?st key_S1) = None"
    by (simp add: Segmentation_make_3_2)
  then have make: "Segmentation_make ?e ?st key_S1 = (fst (Segmentation_make ?e ?st key_S1), None)"
    by (metis prod.collapse)
  have n: "map (n_masks \<circ> snd) (planes loader_3_2) = [3, 2]"
    by (simp add: loader_3_2_def example_loader_def example_plane_def n_masks_def)
  have tot: "total_masks loader_3_2 = 5"
    by (simp add: total_masks_def loader_3_2_def example_loader_def example_plane_def n_masks_def)
  have cells: "map (iscell \<circ> snd) (planes loader_3_2) = [[True, False, True], [True, True]]"
    by (simp add: loader_3_2_def example_loader_def example_plane_def)
  have up: "map int [0..<5] = [0, 1, 2, 3, 4]"
    by (simp add: upt_rec)
  have old: "Mask ?st = []" "Cell ?st = []"
    by (simp_all add: store_S1_def)
  from Segmentation_make_mask_ids[OF dir loader make] obtain ms cs where
    "Mask (fst (Segmentation_make ?e ?st key_S1)) = ms"
    "Cell (fst (Segmentation_make ?e ?st key_S1)) = cs"
    "map mask_id ms = [0, 1, 2, 3, 4]" "map cell_mask cs = [0, 1, 2, 3, 4]"
    "map is_cell cs = [True, False, True, True, True]"
    unfolding tot up old
    by (auto simp: loader_3_2_def example_loader_def example_plane_def n_masks_def)
  with dir loader ok n cells show ?thesis by simp
qed

subsection \<open>Processing: absent output directory\<close>

text \<open>Claim C2. For a task whose method is suite2p and whose output directory resolves
  to a directory that does not exist, the Processing make step returns normally with the
  store unchanged: no row in \<open>Processing\<close>, \<open>PhysicalFile\<close>, \<open>ProcessingOutputFile\<close>
  or any other table, and the key is as eligible after the step as before.\<close>

theorem Processing_make_absent_directory:
  assumes "fetch1_processing_method st key = Inr ''suite2p''"
    and "get_suite2p_dir e key = Some d"
    and "\<not> dir_exists e d"
  shows "Processing_make e st key = (st, None) \<and>
         eligible Processing_key_source Processing_keys (fst (Processing_make e st key)) =
           eligible Processing_key_source Processing_keys st"
proof -
  from assms have "Processing_make e st key = (st, None)"
    by (simp add: Processing_make_def suite2p_data_dir_def)
  then show ?thesis by simp
qed

theorem Processing_make_absent_directory_witness:
  "fetch1_processing_method (store_S1 ''suite2p'') key_S1 = Inr ''suite2p'' \<and>
   get_suite2p_dir (example_env loader_3_2 False) key_S1 = Some [''data'', ''S1'', ''suite2p''] \<and>
   \<not> dir_exists (example_env loader_3_2 False) [''data'', ''S1'', ''suite2p''] \<and>
   Processing_make (example_env loader_3_2 False) (store_S1 ''suite2p'') key_S1 =
     (store_S1 ''suite2p'', None) \<and>
   eligible Processing_key_source Processing_keys
     (fst (Processing_make (example_env loader_3_2 False) (store_S1 ''suite2p'') key_S1)) = [key_S1]"
proof -
  let ?e = "example_env loader_3_2 False" and ?st = "store_S1 ''suite2p''"
  let ?d = "[''data'', ''S1'', ''suite2p'']"
  have m: "fetch1_processing_method ?st key_S1 = Inr ''suite2p''"
    by (simp add: fetch1_processing_method_def fetch1_def ProcessingMethod_contents_def
          store_S1_def)
  have dir: "get_suite2p_dir ?e key_S1 = Some ?d"
    by (simp add: example_env_def key_S1_def)
  have absent: "\<not> dir_exists ?e ?d"
    by (simp add: example_env_def)
  have el: "eligible Processing_key_source Processing_keys ?st = [key_S1]"
    by (simp add: eligible_def Processing_key_source_def Processing_keys_def store_S1_def key_S1_def)
  from Processing_make_absent_directory[OF m dir absent] m dir absent el
  show ?thesis by simp
qed

subsection \<open>Unsupported methods\<close>

lemma populate_keys_failed:
  assumes "mk st k = (st1, Some err)"
  shows "populate_keys mk kp (k # ks) st =
           (fst (populate_keys mk kp ks st), (k, Failed err) # snd (populate_keys mk kp ks st))"
  using assms by (simp add: case_prod_unfold)

lemma fails_for_key_onlyI:
  "mk st key = (st, Some err) \<Longrightarrow> fails_for_key_only mk key err st"
  unfolding fails_for_key_only_def by (simp add: case_prod_unfold)

text \<open>Claim C3. For a key whose method is not \<open>suite2p\<close>, each of the five make steps
  raises \<open>NotImplementedError\<close> before it inserts anything; in a pass the failure is
  recorded for that key and the remaining keys are processed from the same store.\<close>

theorem unsupported_method_fails_for_key_only:
  assumes "fetch1_processing_method st key = Inr method" and "method \<noteq> ''suite2p''"
  shows "fails_for_key_only (Processing_make e) key
           (NotImplementedError (''Unknown method: '' @ method)) st \<and>
         fails_for_key_only (MotionCorrection_make e) key
           (NotImplementedError (''Unknown/unimplemented method: '' @ method)) st \<and>
         fails_for_key_only (MotionCorrectedImages_make e) key
           (NotImplementedError (''Unknown/unimplemented method: '' @ method)) st \<and>
         fails_for_key_only (Segmentation_make e) key
           (NotImplementedError (''Unknown/unimplemented method: '' @ method)) st \<and>
         fails_for_key_only (Fluorescence_make e) key
           (NotImplementedError (''Unknown/unimplemented method: '' @ method)) st"
proof -
  have "Processing_make e st key =
          (st, Some (NotImplementedError (''Unknown method: '' @ method)))"
    using assms by (simp add: Processing_make_def)
  moreover have "MotionCorrection_make e st key =
          (st, Some (NotImplementedError (''Unknown/unimplemented method: '' @ method)))"
    using assms by (simp add: MotionCorrection_make_def)
  moreover have "MotionCorrectedImages_make e st key =
          (st, Some (NotImplementedError (''Unknown/unimplemented method: '' @ method)))"
    using assms by (simp add: MotionCorrectedImages_make_def)
  moreover have "Segmentation_make e st key =
          (st, Some (NotImplementedError (''Unknown/unimplemented method: '' @ method)))"
    using assms by (simp add: Segmentation_make_def)
  moreover have "Fluorescence_make e st key =
          (st, Some (NotImplementedError (''Unknown/unimplemented method: '' @ method)))"
    using assms by (simp add: Fluorescence_make_def)
  ultimately show ?thesis by (simp add: fails_for_key_onlyI)
qed

lemma Processing_make_S1b:
  "Processing_make (example_env loader_3_2 True) store_two key_S1b =
     (store_two
        \<lparr>Processing := [\<lparr>p_key = key_S1b, start_time = None, completion_time = 10,
                          p_curation_time = Some 20\<rparr>],
         PhysicalFile := [[''S1'', ''suite2p'', ''ops.npy'']],
         ProcessingOutputFile := [(key_S1b, [''S1'', ''suite2p'', ''ops.npy''])]\<rparr>, None)"
  by (simp add: Processing_make_def fetch1_processing_method_def fetch1_def
        ProcessingMethod_contents_def store_two_def store_S1_def key_S1_def key_S1b_def
        example_env_def suite2p_data_dir_def loader_3_2_def example_loader_def
        insert1_def root_data_dir_def relative_to_def)

theorem unsupported_method_fails_for_key_only_witness:
  "fetch1_processing_method store_two key_S1 = Inr ''caiman'' \<and> ''caiman'' \<noteq> ''suite2p'' \<and>
   eligible Processing_key_source Processing_keys store_two = [key_S1, key_S1b] \<and>
   Processing_make (example_env loader_3_2 True) store_two key_S1 =
     (store_two, Some (NotImplementedError ''Unknown method: caiman'')) \<and>
   snd (populate (Processing_make (example_env loader_3_2 True))
          Processing_key_source Processing_keys store_two) =
     [(key_S1, Failed (NotImplementedError ''Unknown method: caiman'')), (key_S1b, Succeeded)] \<and>
   eligible Processing_key_source Processing_keys
     (fst (populate (Processing_make (example_env loader_3_2 True))
          Processing_key_source Processing_keys store_two)) = [key_S1]"
proof -
  let ?e = "example_env loader_3_2 True"
  have m: "fetch1_processing_method store_two key_S1 = Inr ''caiman''"
    by (simp add: fetch1_processing_method_def fetch1_def ProcessingMethod_contents_def
          store_two_def store_S1_def key_S1_def key_S1b_def)
  have ne: "''caiman'' \<noteq> ''suite2p''" by simp
  have el: "eligible Processing_key_source Processing_keys store_two = [key_S1, key_S1b]"
    by (simp add: eligible_def Processing_key_source_def Processing_keys_def store_two_def
          store_S1_def key_S1_def key_S1b_def)
  from unsupported_method_fails_for_key_only[OF m ne, of ?e]
  have f: "fails_for_key_only (Processing_make ?e) key_S1
             (NotImplementedError ''Unknown method: caiman'') store_two"
    by simp
  then have mk: "Processing_make ?e store_two key_S1 =
      (store_two, Some (NotImplementedError ''Unknown method: caiman''))"
    by (simp add: fails_for_key_only_def)
  from f have pass: "populate_keys (Processing_make ?e) Processing_keys [key_S1, key_S1b] store_two =
      (fst (populate_keys (Processing_make ?e) Processing_keys [key_S1b] store_two),
       (key_S1, Failed (NotImplementedError ''Unknown method: caiman'')) #
       snd (populate_keys (Processing_make ?e) Processing_keys [key_S1b] store_two))"
    unfolding fails_for_key_only_def by blast
  have rest: "populate_keys (Processing_make ?e) Processing_keys [key_S1b] store_two =
      (fst (Processing_make ?e store_two key_S1b), [(key_S1b, Succeeded)])"
    by (simp add: Processing_make_S1b Processing_keys_def)
  have after: "eligible Processing_key_source Processing_keys
                 (fst (Processing_make ?e store_two key_S1b)) = [key_S1]"
    unfolding Processing_make_S1b fst_conv
    by (simp add: eligible_def Processing_key_source_def Processing_keys_def
          store_two_def store_S1_def key_S1_def key_S1b_def)
  from m ne el mk pass rest after show ?thesis
    by (simp add: populate_def)
qed

subsection \<open>Processing: eligible keys\<close>

text \<open>Claim C4. The keys eligible for Processing are the keys of \<open>ProcessingTask\<close>
  whose scan has a \<open>ScanInfo\<close> record, minus the keys \<open>Processing\<close> already holds.\<close>

theorem Processing_eligible_keys:
  "set (eligible Processing_key_source Processing_keys st) =
     (task ` set (ProcessingTask st) \<inter> {k. scan k \<in> set (ScanInfo st)}) -
       p_key ` set (Processing st)"
proof -
  have "set (Processing_key_source st) =
          task ` set (ProcessingTask st) \<inter> {k. scan k \<in> set (ScanInfo st)}"
    unfolding Processing_key_source_def by (simp add: image_iff set_eq_iff) blast
  then show ?thesis
    by (simp add: eligible_def Processing_keys_def set_diff_eq)
qed

end
